theory Spec2Isabelle
  imports Main "HOL-Library.Word" "HOL-Library.Sublist"
begin

section \<open>Go strings\<close>

text \<open>
  A Go string is a sequence of bytes: \<open>string\<close> (a \<open>char list\<close>) here.
  \<open>Split s sep\<close> is \<^verbatim>\<open>strings.Split(s, sep)\<close> for a separator of one byte, the only
  way pkg/controller/utils.go calls it (\<^verbatim>\<open>"/"\<close> and \<^verbatim>\<open>":"\<close>): the fields between the
  separators, in order; a string without the separator gives the string alone, the empty
  string gives one empty field.
\<close>

fun Split :: "string \<Rightarrow> char \<Rightarrow> string list" where
  "Split [] sep = [[]]"
| "Split (c # cs) sep =
     (if c = sep then [] # Split cs sep
      else (case Split cs sep of
              [] \<Rightarrow> [[c]]
            | f # fs \<Rightarrow> (c # f) # fs))"

text \<open>\<^verbatim>\<open>strings.Contains(s, sep)\<close> for a separator of one byte.\<close>

definition Contains :: "string \<Rightarrow> char \<Rightarrow> bool" where
  "Contains s sep = (sep \<in> set s)"

text \<open>
  \<^verbatim>\<open>strings.HasPrefix(s, prefix)\<close>, as the Go library defines it:
  \<^verbatim>\<open>len(s) >= len(prefix) && s[:len(prefix)] == prefix\<close>.
\<close>

definition HasPrefix :: "string \<Rightarrow> string \<Rightarrow> bool" where
  "HasPrefix s p = (length p \<le> length s \<and> take (length p) s = p)"

text \<open>
  Indexing a slice: Go panics when the index is out of range, \<open>None\<close> here.
\<close>

definition index :: "'a list \<Rightarrow> nat \<Rightarrow> 'a option" where
  "index xs i = (if i < length xs then Some (xs ! i) else None)"

section \<open>Image names\<close>

text \<open>
  \<^verbatim>\<open>retagImage\<close> (utils.go, lines 17 to 39). The package variable \<^verbatim>\<open>repository\<close>
  is read once from the environment (\<^verbatim>\<open>REPOSITORY\<close>) and never assigned again: it is
  the first argument here. The result is the triple
  \<^verbatim>\<open>(imageName, tag, newImage)\<close>; \<open>None\<close> is an index out of range. The source's
  local \<^verbatim>\<open>image\<close> is \<open>parts\<close> here (\<open>image\<close> is a constant of HOL), and the
  first value of \<^verbatim>\<open>imageName\<close>, before the prefix is put in front, is \<open>imageName0\<close>.
\<close>

definition retagImage :: "string \<Rightarrow> string \<Rightarrow> (string \<times> string \<times> string) option" where
  "retagImage repository name =
     (let parts = Split name CHR ''/'' in
      case (if length parts = 2 then index parts 1 else index parts 0) of
        None \<Rightarrow> None
      | Some imageNameWithTag \<Rightarrow>
          (case (if Contains imageNameWithTag CHR '':''
                 then (let list = Split imageNameWithTag CHR '':'' in
                       case index list 0 of
                         None \<Rightarrow> None
                       | Some n \<Rightarrow> (case index list 1 of
                                      None \<Rightarrow> None
                                    | Some t \<Rightarrow> Some (n, t)))
                 else Some (imageNameWithTag, [])) of
             None \<Rightarrow> None
           | Some (imageName0, tag) \<Rightarrow>
               (let imageName = repository @ ''/'' @ imageName0;
                    newImage = (if length tag > 0 then imageName @ '':'' @ tag else imageName)
                in Some (imageName, tag, newImage))))"

text \<open>\<^verbatim>\<open>imageNotPresent\<close> (utils.go, lines 353 to 360); its argument \<^verbatim>\<open>image\<close> is
  \<open>img\<close> here.\<close>

definition imageNotPresent :: "string \<Rightarrow> string \<Rightarrow> bool" where
  "imageNotPresent repository img =
     (if length repository = 0 then False
      else if \<not> HasPrefix img repository then True
      else False)"

section \<open>Workloads and readiness\<close>

text \<open>
  The fields of \<^verbatim>\<open>corev1.Container\<close>, \<^verbatim>\<open>appsv1.Deployment\<close> and
  \<^verbatim>\<open>appsv1.DaemonSet\<close> that the controller reads or writes. The status counters are
  \<^verbatim>\<open>int32\<close>. \<open>dep_Containers\<close> is \<^verbatim>\<open>Spec.Template.Spec.Containers\<close>.
\<close>

record Container =
  Name :: string
  Image :: string

record Deployment =
  dep_Replicas :: "32 word"
  dep_ReadyReplicas :: "32 word"
  dep_Containers :: "Container list"

record DaemonSet =
  ds_DesiredNumberScheduled :: "32 word"
  ds_NumberReady :: "32 word"
  ds_Containers :: "Container list"

text \<open>
  \<^verbatim>\<open>isDeploymentReady\<close> and \<^verbatim>\<open>isDaemonSetReady\<close> (utils.go, lines 333 to 351), on
  the struct the pointer refers to. The comparison \<^verbatim>\<open>desired > 0\<close> is signed.
\<close>

definition isDeploymentReady :: "Deployment \<Rightarrow> bool" where
  "isDeploymentReady deployment =
     (let desired = dep_Replicas deployment;
          ready = dep_ReadyReplicas deployment
      in if desired = ready \<and> 0 <s desired then True else False)"

definition isDaemonSetReady :: "DaemonSet \<Rightarrow> bool" where
  "isDaemonSetReady daemonsets =
     (let desired = ds_DesiredNumberScheduled daemonsets;
          ready = ds_NumberReady daemonsets
      in if desired = ready \<and> 0 <s desired then True else False)"

text \<open>
  The readiness policy in the specification's words, over the counters as integers:
  \<^verbatim>\<open>isReady(desired, ready) := desired == ready && desired > 0\<close>.
\<close>

definition isReady_spec :: "int \<Rightarrow> int \<Rightarrow> bool" where
  "isReady_spec desired ready = (desired = ready \<and> desired > 0)"

text \<open>
  The value of the local \<^verbatim>\<open>imageNameWithTag\<close> of \<^verbatim>\<open>retagImage\<close> (lines 19 to 24),
  where neither index is out of range: the second field of a name of exactly two
  fields, the first field of any other name.
\<close>

definition imageNameWithTag :: "string \<Rightarrow> string" where
  "imageNameWithTag name =
     (let parts = Split name CHR ''/'' in if length parts = 2 then parts ! 1 else parts ! 0)"

section \<open>Errors, outcomes and the calls to the collaborators\<close>

text \<open>
  The errors the lister of the informer cache and the update call of the API server
  return (\<^verbatim>\<open>errors.IsNotFound\<close>, \<^verbatim>\<open>errors.IsConflict\<close> tell them apart).
\<close>

datatype lister_error = NotFound | LookupFailed

datatype update_error = Conflict | UpdateFailed

text \<open>
  One constructor for each error value utils.go builds or passes on, with the
  arguments of its format string.
\<close>

datatype error =
    FetchCredentialsFailed
  | ParseOldImageError string
  | CredentialsError error
  | SourceImageError string
  | ParseNewImageError string
  | PushError string
  | GetError string "lister_error option"
  | DeploymentNotReady string
  | DaemonSetNotReady string
  | ProcessingError string string error
  | UpdateError update_error
  | NotInReadyState string string string
  | UpdatingImageError string error

text \<open>
  What a call does: it returns a value (\<open>Ok\<close>; for a function whose only result is an
  \<^verbatim>\<open>error\<close>, \<open>Ok ()\<close> is \<^verbatim>\<open>nil\<close>), returns an error, or panics.
\<close>

datatype 'a result = Ok 'a | Err error | Panic

text \<open>An item of the work queue is an \<^verbatim>\<open>interface{}\<close>: a string key, or anything else.\<close>

datatype item = StringItem string | OtherItem

text \<open>
  The calls that leave the controller, in the order they are made: to the source and
  destination registries, to the cache and the API server, and to the work queue.
  Log lines and \<^verbatim>\<open>HandleError\<close> are not recorded.
\<close>

datatype event =
    RemoteImage string
  | RemoteList string
  | RemoteWrite string
  | DeploymentsGet string string
  | DaemonSetsGet string string
  | DeploymentsUpdate string Deployment
  | DaemonSetsUpdate string DaemonSet
  | Forget item
  | AddRateLimited string
  | Done item

text \<open>The number of pushes (\<^verbatim>\<open>remote.Write\<close>) among the calls made.\<close>

definition pushes :: "event list \<Rightarrow> nat" where
  "pushes tr = length (filter (\<lambda>e. case e of RemoteWrite ref \<Rightarrow> True | _ \<Rightarrow> False) tr)"

text \<open>
  The process environment: \<^verbatim>\<open>os.Getenv\<close> gives the empty string for a variable that
  is not set.
\<close>

record environment =
  REPOSITORY :: string
  USERNAME :: string
  PASSWORD :: string

text \<open>
  The registry client (go-containerregistry) is a collaborator, not code of this
  repository: it is a parameter. \<open>'r\<close> is the state of the registries. A reference is
  known by the string it was parsed from; \<open>name_ParseReference\<close> says whether the string
  parses. \<open>remote_Image\<close> resolves the source image (no authenticator is passed),
  \<open>remote_List\<close> lists the tags of a repository (an error of \<^verbatim>\<open>name.NewRepository\<close> or
  \<^verbatim>\<open>remote.List\<close> is dropped by the caller, which then ranges over a nil list),
  \<open>remote_Write\<close> pushes and says whether it succeeded. The authenticator is the pair
  of user name and password.
\<close>

record 'r remote =
  name_ParseReference :: "string \<Rightarrow> bool"
  remote_Image :: "string \<Rightarrow> 'r \<Rightarrow> bool"
  remote_List :: "string \<times> string \<Rightarrow> string \<Rightarrow> 'r \<Rightarrow> string list"
  remote_Write :: "string \<times> string \<Rightarrow> string \<Rightarrow> 'r \<Rightarrow> bool \<times> 'r"

text \<open>
  The cluster: the two listers of the informer cache, by namespace and name, and the two
  update calls of the client set, by namespace and object.
\<close>

record cluster =
  depLister_Get :: "string \<Rightarrow> string \<Rightarrow> lister_error + Deployment"
  daemonLister_Get :: "string \<Rightarrow> string \<Rightarrow> lister_error + DaemonSet"
  Deployments_Update :: "string \<Rightarrow> Deployment \<Rightarrow> update_error option"
  DaemonSets_Update :: "string \<Rightarrow> DaemonSet \<Rightarrow> update_error option"

section \<open>Mirroring\<close>

text \<open>
  \<^verbatim>\<open>imageAlreadyPresentInRepo\<close> (utils.go, lines 42 to 51): \<open>rangeTags\<close> is its loop
  over the listing.
\<close>

fun rangeTags :: "string list \<Rightarrow> string \<Rightarrow> bool" where
  "rangeTags [] tag = False"
| "rangeTags (t # ts) tag = (if t = tag then True else rangeTags ts tag)"

definition imageAlreadyPresentInRepo ::
  "'r remote \<Rightarrow> string \<Rightarrow> string \<Rightarrow> string \<times> string \<Rightarrow> 'r \<Rightarrow> bool" where
  "imageAlreadyPresentInRepo rc registry tag opt r =
     rangeTags (remote_List rc opt registry r) tag"

text \<open>\<^verbatim>\<open>getRegistryCredentials\<close> (utils.go, lines 54 to 66).\<close>

definition getRegistryCredentials :: "environment \<Rightarrow> error + string \<times> string" where
  "getRegistryCredentials env =
     (let username = USERNAME env;
          password = PASSWORD env
      in if length username = 0 \<or> length password = 0 then Inl FetchCredentialsFailed
         else Inr (username, password))"

text \<open>
  \<^verbatim>\<open>processImage\<close> (utils.go, lines 69 to 96): the result, the state of the
  registries after the call, and the calls made.
\<close>

definition processImage ::
  "'r remote \<Rightarrow> environment \<Rightarrow> string \<Rightarrow> 'r \<Rightarrow> string result \<times> 'r \<times> event list" where
  "processImage rc env imgName r =
     (if \<not> name_ParseReference rc imgName then (Err (ParseOldImageError imgName), r, [])
      else case getRegistryCredentials env of
        Inl e \<Rightarrow> (Err (CredentialsError e), r, [])
      | Inr opt \<Rightarrow>
          if \<not> remote_Image rc imgName r
          then (Err (SourceImageError imgName), r, [RemoteImage imgName])
          else (case retagImage (REPOSITORY env) imgName of
                  None \<Rightarrow> (Panic, r, [RemoteImage imgName])
                | Some (registry, tag, newImage) \<Rightarrow>
                    if \<not> name_ParseReference rc newImage
                    then (Err (ParseNewImageError imgName), r, [RemoteImage imgName])
                    else if \<not> imageAlreadyPresentInRepo rc registry tag opt r
                    then (case remote_Write rc opt newImage r of
                            (False, r') \<Rightarrow>
                              (Err (PushError newImage), r',
                               [RemoteImage imgName, RemoteList registry, RemoteWrite newImage])
                          | (True, r') \<Rightarrow>
                              (Ok newImage, r',
                               [RemoteImage imgName, RemoteList registry, RemoteWrite newImage]))
                    else (Ok newImage, r, [RemoteImage imgName, RemoteList registry])))"

section \<open>The reconcile pass\<close>

text \<open>
  The assignment \<^verbatim>\<open>Containers[i].Image = img\<close>: Go panics when \<open>i\<close> is out of range,
  \<open>None\<close> here.
\<close>

definition setImage :: "Container list \<Rightarrow> nat \<Rightarrow> string \<Rightarrow> Container list option" where
  "setImage cs i img = (if i < length cs then Some (cs[i := (cs ! i)\<lparr>Image := img\<rparr>]) else None)"

text \<open>
  The loop \<^verbatim>\<open>for i, cont := range containers\<close> of \<^verbatim>\<open>checkAndUpdateImage\<close>
  (utils.go, lines 303 to 328). \<open>Some\<close> is a \<^verbatim>\<open>return\<close> inside the loop, with the
  calls made in the loop; \<open>None\<close> is the loop running to its end. Both branches of the
  body return, so no equation continues with the rest of the list. \<open>dep\<close> and
  \<open>daemonset\<close> are the two pointers, \<open>None\<close> for \<^verbatim>\<open>nil\<close>; the object passed to the
  update call is the one the pointer refers to, with the image assigned.
\<close>

fun rangeContainers ::
  "'r remote \<Rightarrow> cluster \<Rightarrow> environment \<Rightarrow> string \<Rightarrow> string \<Rightarrow> string \<Rightarrow>
   Deployment option \<Rightarrow> DaemonSet option \<Rightarrow> nat \<Rightarrow> Container list \<Rightarrow> 'r \<Rightarrow>
   (unit result \<times> 'r \<times> event list) option" where
  "rangeContainers rc cl env key resourceType namespace dep daemonset i [] r = None"
| "rangeContainers rc cl env key resourceType namespace dep daemonset i (cont # rest) r =
     (if imageNotPresent (REPOSITORY env) (Image cont) then
        (case processImage rc env (Image cont) r of
           (Err e, r', tr) \<Rightarrow> Some (Err (ProcessingError key (Name cont) e), r', tr)
         | (Panic, r', tr) \<Rightarrow> Some (Panic, r', tr)
         | (Ok img, r', tr) \<Rightarrow>
             if resourceType = ''deployment'' then
               (case dep of
                  None \<Rightarrow> Some (Panic, r', tr)
                | Some d \<Rightarrow>
                    (case setImage (dep_Containers d) i img of
                       None \<Rightarrow> Some (Panic, r', tr)
                     | Some cs \<Rightarrow>
                         (let d' = d\<lparr>dep_Containers := cs\<rparr> in
                          case Deployments_Update cl namespace d' of
                            None \<Rightarrow> Some (Ok (), r', tr @ [DeploymentsUpdate namespace d'])
                          | Some e \<Rightarrow>
                              Some (Err (UpdateError e), r',
                                    tr @ [DeploymentsUpdate namespace d']))))
             else if resourceType = ''daemonset'' then
               (case daemonset of
                  None \<Rightarrow> Some (Panic, r', tr)
                | Some d \<Rightarrow>
                    (case setImage (ds_Containers d) i img of
                       None \<Rightarrow> Some (Panic, r', tr)
                     | Some cs \<Rightarrow>
                         (let d' = d\<lparr>ds_Containers := cs\<rparr> in
                          case DaemonSets_Update cl namespace d' of
                            None \<Rightarrow> Some (Ok (), r', tr @ [DaemonSetsUpdate namespace d'])
                          | Some e \<Rightarrow>
                              Some (Err (UpdateError e), r',
                                    tr @ [DaemonSetsUpdate namespace d']))))
             else Some (Ok (), r', tr))
      else Some (Ok (), r, []))"

text \<open>
  \<^verbatim>\<open>checkAndUpdateImage\<close> (utils.go, lines 264 to 331). A lister that fails returns a
  nil pointer and the error. \<open>errs\<close> is declared and never assigned; \<open>err\<close> holds the
  lister's error. \<^verbatim>\<open>isDeploymentReady(dep)\<close> and \<^verbatim>\<open>isDaemonSetReady(daemonset)\<close>
  read \<^verbatim>\<open>Status\<close> through the pointer: a nil pointer panics there.
\<close>

definition checkAndUpdateImage ::
  "'r remote \<Rightarrow> cluster \<Rightarrow> environment \<Rightarrow> string \<Rightarrow> string \<Rightarrow> string \<Rightarrow> string \<Rightarrow> 'r \<Rightarrow>
   unit result \<times> 'r \<times> event list" where
  "checkAndUpdateImage rc cl env key resourceType namespace name r =
     (let errs = (None :: error option);
          (dep, daemonset, err, tr0) =
            (if resourceType = ''deployment'' then
               (case depLister_Get cl namespace name of
                  Inl e \<Rightarrow> (None, None, Some e, [DeploymentsGet namespace name])
                | Inr d \<Rightarrow> (Some d, None, None, [DeploymentsGet namespace name]))
             else if resourceType = ''daemonset'' then
               (case daemonLister_Get cl namespace name of
                  Inl e \<Rightarrow> (None, None, Some e, [DaemonSetsGet namespace name])
                | Inr d \<Rightarrow> (None, Some d, None, [DaemonSetsGet namespace name]))
             else (None, None, None, []))
      in
      if errs \<noteq> None then
        (if err = Some NotFound then (Ok (), r, tr0)
         else (Err (GetError resourceType err), r, tr0))
      else
        (case (if resourceType = ''deployment'' then
                 (case dep of
                    None \<Rightarrow> Inl Panic
                  | Some d \<Rightarrow>
                      if isDeploymentReady d then Inr (True, dep_Containers d)
                      else Inl (Err (DeploymentNotReady name)))
               else if resourceType = ''daemonset'' then
                 (case daemonset of
                    None \<Rightarrow> Inl Panic
                  | Some d \<Rightarrow>
                      if isDaemonSetReady d then Inr (True, ds_Containers d)
                      else Inl (Err (DaemonSetNotReady name)))
               else Inr (False, [])) of
           Inl out \<Rightarrow> (out, r, tr0)
         | Inr (ready, containers) \<Rightarrow>
             (case (if ready
                    then rangeContainers rc cl env key resourceType namespace dep daemonset
                           0 containers r
                    else None) of
                Some (out, r', tr) \<Rightarrow> (out, r', tr0 @ tr)
              | None \<Rightarrow> (Err (NotInReadyState resourceType name namespace), r, tr0))))"

section \<open>The worker\<close>

text \<open>
  \<^verbatim>\<open>processNext\<close>, the closure \<^verbatim>\<open>runWorker\<close> (utils.go, lines 224 to 260) applies to
  every item it gets from the queue. \<^verbatim>\<open>Done\<close> is deferred: it is the last call on
  every path, a panic included.
\<close>

definition processNext ::
  "'r remote \<Rightarrow> cluster \<Rightarrow> environment \<Rightarrow> item \<Rightarrow> 'r \<Rightarrow> unit result \<times> 'r \<times> event list" where
  "processNext rc cl env obj r =
     (case obj of
        OtherItem \<Rightarrow> (Ok (), r, [Forget obj, Done obj])
      | StringItem key \<Rightarrow>
          (let parts = Split key CHR ''/'' in
           if length parts \<noteq> 3 then (Ok (), r, [Done obj])
           else if parts ! 1 \<noteq> ''kube-system'' then
             (case checkAndUpdateImage rc cl env key (parts ! 0) (parts ! 1) (parts ! 2) r of
                (Err e, r', tr) \<Rightarrow>
                  (Err (UpdatingImageError (parts ! 1) e), r', tr @ [AddRateLimited key, Done obj])
              | (Panic, r', tr) \<Rightarrow> (Panic, r', tr @ [Done obj])
              | (Ok u, r', tr) \<Rightarrow> (Ok (), r', tr @ [Forget obj, Done obj]))
           else (Ok (), r, [Forget obj, Done obj])))"

section \<open>Concrete collaborators\<close>

text \<open>
  A small registry, cluster and environment, at which the theorems below are evaluated.
  The registry holds pairs of repository and tag; a reference parses when it is not
  empty, every source image resolves, and a push to \<^verbatim>\<open>repo:tag\<close> succeeds and adds the
  pair. A push to a reference without a tag is stored, and then listed, under the tag
  \<^verbatim>\<open>latest\<close>: \<^verbatim>\<open>name.ParseReference\<close> gives such a reference the default tag, and
  no tag of a registry is the empty string. The cluster has one deployment, \<^verbatim>\<open>default/web\<close>, ready with one replica, whose
  first container already runs a mirrored image and whose second does not; every update
  succeeds.
\<close>

definition example_remote :: "(string \<times> string) list remote" where
  "example_remote =
     \<lparr>name_ParseReference = (\<lambda>s. s \<noteq> []),
      remote_Image = (\<lambda>ref r. True),
      remote_List = (\<lambda>opt repo r. map snd (filter (\<lambda>p. fst p = repo) r)),
      remote_Write = (\<lambda>opt ref r.
        (True, (takeWhile (\<lambda>c. c \<noteq> CHR '':'') ref,
                if CHR '':'' \<in> set ref then tl (dropWhile (\<lambda>c. c \<noteq> CHR '':'') ref)
                else ''latest'') # r))\<rparr>"

definition example_env :: environment where
  "example_env = \<lparr>REPOSITORY = ''backup'', USERNAME = ''user'', PASSWORD = ''secret''\<rparr>"

definition example_deployment :: Deployment where
  "example_deployment =
     \<lparr>dep_Replicas = 1, dep_ReadyReplicas = 1,
      dep_Containers = [\<lparr>Name = ''app'', Image = ''backup/app:v1''\<rparr>,
                        \<lparr>Name = ''sidecar'', Image = ''nginx:1.0''\<rparr>]\<rparr>"

definition example_cluster :: cluster where
  "example_cluster =
     \<lparr>depLister_Get = (\<lambda>namespace name.
        if namespace = ''default'' \<and> name = ''web'' then Inr example_deployment
        else Inl NotFound),
      daemonLister_Get = (\<lambda>namespace name. Inl NotFound),
      Deployments_Update = (\<lambda>namespace d. None),
      DaemonSets_Update = (\<lambda>namespace d. None)\<rparr>"

section \<open>Strings: the fields of a split\<close>

lemma Split_not_Nil: "Split s c \<noteq> []"
  by (induction s) (auto split: list.splits)

lemma Split_nth_0: "Split s c ! 0 = takeWhile (\<lambda>x. x \<noteq> c) s"
  by (induction s) (auto split: list.splits simp: Split_not_Nil)

lemma Split_without: "c \<notin> set s \<Longrightarrow> Split s c = [s]"
  by (induction s) (auto split: list.splits)

lemma Split_append: "c \<notin> set a \<Longrightarrow> Split (a @ c # b) c = a # Split b c"
  by (induction a) (auto split: list.splits)

lemma Split_length_ge_2: "c \<in> set s \<Longrightarrow> 2 \<le> length (Split s c)"
  by (induction s) (auto split: list.splits simp: Split_not_Nil)

lemma Split_nth_1:
  assumes "c \<in> set s"
  shows "Split s c ! 1 = takeWhile (\<lambda>x. x \<noteq> c) (tl (dropWhile (\<lambda>x. x \<noteq> c) s))"
  using assms
proof (induction s)
  case Nil
  then show ?case by simp
next
  case (Cons a s)
  show ?case
  proof (cases "a = c")
    case True
    then show ?thesis using Split_nth_0 [of s c] by simp
  next
    case False
    with Cons.prems have "c \<in> set s" by simp
    from Cons.IH [OF this] False show ?thesis
      by (cases "Split s c") (simp_all add: Split_not_Nil)
  qed
qed

lemma index_Split_0: "index (Split s c) 0 = Some (takeWhile (\<lambda>x. x \<noteq> c) s)"
  using Split_not_Nil [of s c] Split_nth_0 [of s c] by (simp add: index_def)

lemma index_Split_1:
  "c \<in> set s \<Longrightarrow>
   index (Split s c) (Suc 0) =
     Some (takeWhile (\<lambda>x. x \<noteq> c) (tl (dropWhile (\<lambda>x. x \<noteq> c) s)))"
  using Split_length_ge_2 [of c s] Split_nth_1 [of c s] by (simp add: index_def)

lemma takeWhile_without: "c \<notin> set s \<Longrightarrow> takeWhile (\<lambda>x. x \<noteq> c) s = s"
  by (induction s) auto

lemma dropWhile_without: "c \<notin> set s \<Longrightarrow> dropWhile (\<lambda>x. x \<noteq> c) s = []"
  by (induction s) auto

lemma HasPrefix_iff_prefix: "HasPrefix s p = prefix p s"
  by (auto simp: HasPrefix_def prefix_def) (metis append_eq_conv_conj)

section \<open>The mirror target\<close>

text \<open>
  \<^verbatim>\<open>retagImage\<close> in closed form: no index is out of range, the name is what stands
  before the first colon of \<open>imageNameWithTag\<close> and the tag what stands between its
  first and second colon.
\<close>

lemma retagImage_closed_form:
  "retagImage repository name =
     (let w = imageNameWithTag name;
          nm = takeWhile (\<lambda>x. x \<noteq> CHR '':'') w;
          tg = takeWhile (\<lambda>x. x \<noteq> CHR '':'') (tl (dropWhile (\<lambda>x. x \<noteq> CHR '':'') w))
      in Some (repository @ ''/'' @ nm, tg,
               if tg = [] then repository @ ''/'' @ nm
               else repository @ ''/'' @ nm @ '':'' @ tg))"
proof -
  let ?parts = "Split name CHR ''/''"
  have sel: "(if length ?parts = 2 then index ?parts 1 else index ?parts 0) =
               Some (imageNameWithTag name)"
    using Split_not_Nil [of name "CHR ''/''"]
    by (auto simp: index_def imageNameWithTag_def Let_def)
  show ?thesis
  proof (cases "CHR '':'' \<in> set (imageNameWithTag name)")
    case True
    then show ?thesis
      unfolding retagImage_def Let_def sel
      by (simp add: Contains_def index_Split_0 index_Split_1)
  next
    case False
    then show ?thesis
      unfolding retagImage_def Let_def sel
      by (simp add: Contains_def takeWhile_without dropWhile_without)
  qed
qed

text \<open>
  C10. \<^verbatim>\<open>retagImage\<close> returns for every input (no index is out of range). For a
  reference of three or more fields between slashes it takes the first field, the
  registry host, as name and tag: the destination is the prefix, a slash and what stands
  before the first colon of that field, followed by a colon and the tag when the field
  has a non-empty tag after its first colon; the last field plays no part.
\<close>

theorem retagImage_three_segments:
  "(\<exists>res. retagImage repository name = Some res) \<and>
   (3 \<le> length (Split name CHR ''/'') \<longrightarrow>
      (let host = takeWhile (\<lambda>c. c \<noteq> CHR ''/'') name;
           imageName = takeWhile (\<lambda>c. c \<noteq> CHR '':'') host;
           tag = takeWhile (\<lambda>c. c \<noteq> CHR '':'') (tl (dropWhile (\<lambda>c. c \<noteq> CHR '':'') host))
       in retagImage repository name =
            Some (repository @ ''/'' @ imageName, tag,
                  if tag = [] then repository @ ''/'' @ imageName
                  else repository @ ''/'' @ imageName @ '':'' @ tag)))"
proof -
  have "imageNameWithTag name = takeWhile (\<lambda>c. c \<noteq> CHR ''/'') name"
    if "3 \<le> length (Split name CHR ''/'')"
    using that Split_nth_0 [of name "CHR ''/''"] by (simp add: imageNameWithTag_def Let_def)
  then show ?thesis
    by (simp add: retagImage_closed_form Let_def)
qed

theorem retagImage_three_segments_witness:
  "3 \<le> length (Split ''registry.io/namespace/app:v1'' CHR ''/'') \<and>
   retagImage ''backup'' ''registry.io/namespace/app:v1'' =
     Some (''backup/registry.io'', [], ''backup/registry.io'')"
  using retagImage_three_segments [of "''backup''" "''registry.io/namespace/app:v1''"]
  by (simp add: Let_def)

text \<open>
  The mirror target is a function of the reference string and the destination prefix
  alone. Two references with the same value of \<open>imageNameWithTag\<close> have the same
  triple, and so have two references of two fields that differ only in the field before
  the slash.
\<close>

lemma retagImage_two_fields_collapse:
  "(imageNameWithTag a = imageNameWithTag b \<longrightarrow>
      retagImage repository a = retagImage repository b) \<and>
   (CHR ''/'' \<notin> set reg1 \<and> CHR ''/'' \<notin> set reg2 \<and> CHR ''/'' \<notin> set nt \<longrightarrow>
      retagImage repository (reg1 @ ''/'' @ nt) = retagImage repository (reg2 @ ''/'' @ nt))"
proof -
  have same: "retagImage repository a = retagImage repository b"
    if "imageNameWithTag a = imageNameWithTag b" for a b
    using that by (simp add: retagImage_closed_form)
  have two: "imageNameWithTag (reg @ ''/'' @ nt) = nt"
    if "CHR ''/'' \<notin> set reg" "CHR ''/'' \<notin> set nt" for reg
    using that by (simp add: imageNameWithTag_def Split_append Split_without)
  have third: "retagImage repository (reg1 @ ''/'' @ nt) = retagImage repository (reg2 @ ''/'' @ nt)"
    if "CHR ''/'' \<notin> set reg1" "CHR ''/'' \<notin> set reg2" "CHR ''/'' \<notin> set nt"
    by (rule same) (simp only: two [OF that(1) that(3)] two [OF that(2) that(3)])
  show ?thesis
    using same [of a b] third by blast
qed

text \<open>
  C7. Two references with the same name and tag, \<^verbatim>\<open>library/app:v1\<close>, from two source
  registries do not map to the same destination: \<^verbatim>\<open>docker.io/library/app:v1\<close> and
  \<^verbatim>\<open>quay.io/library/app:v1\<close> have three fields, so \<^verbatim>\<open>retagImage\<close> takes the first
  field, the registry host, for the name, and with the prefix \<^verbatim>\<open>backup\<close> the
  destinations are \<^verbatim>\<open>backup/docker.io\<close> and \<^verbatim>\<open>backup/quay.io\<close>, neither of the form
  \<^verbatim>\<open>backup/image-name:tag\<close> the comment on \<^verbatim>\<open>retagImage\<close> gives.
\<close>

theorem retagImage_three_fields_keep_registry:
  "retagImage ''backup'' ''docker.io/library/app:v1'' =
     Some (''backup/docker.io'', [], ''backup/docker.io'') \<and>
   retagImage ''backup'' ''quay.io/library/app:v1'' =
     Some (''backup/quay.io'', [], ''backup/quay.io'') \<and>
   retagImage ''backup'' ''docker.io/library/app:v1'' \<noteq>
     retagImage ''backup'' ''quay.io/library/app:v1''"
  by (simp add: retagImage_closed_form imageNameWithTag_def Let_def)

section \<open>The already-mirrored test and readiness\<close>

text \<open>
  C5. The already-mirrored test is a prefix test and nothing else: \<^verbatim>\<open>imageNotPresent\<close>
  is a function of the prefix and the image string (it calls no collaborator), false
  exactly when the image string begins with the destination prefix; with the empty
  prefix it is false for every image.
\<close>

theorem imageNotPresent_iff_not_prefix:
  "imageNotPresent repository img = (\<not> prefix repository img) \<and>
   imageNotPresent [] img = False"
  by (auto simp: imageNotPresent_def HasPrefix_iff_prefix)

theorem imageNotPresent_iff_not_prefix_witness:
  "imageNotPresent ''backup'' ''backup/app:v1'' = False \<and>
   imageNotPresent ''backup'' ''nginx:1.0'' = True \<and>
   imageNotPresent [] ''nginx:1.0'' = False"
  using imageNotPresent_iff_not_prefix [of "''backup''" "''backup/app:v1''"]
    imageNotPresent_iff_not_prefix [of "''backup''" "''nginx:1.0''"]
    imageNotPresent_iff_not_prefix [of "[]" "''nginx:1.0''"]
  by simp

text \<open>
  C6. Both readiness predicates are the policy
  \<^verbatim>\<open>desired == ready && desired > 0\<close> on the two status counters, read as signed
  32-bit integers; the policy holds at (3, 3) and fails at (0, 0) and at (3, 2), and so
  do both predicates on objects with these counters.
\<close>

theorem readiness_is_isReady:
  "isDeploymentReady d = isReady_spec (sint (dep_Replicas d)) (sint (dep_ReadyReplicas d)) \<and>
   isDaemonSetReady s =
     isReady_spec (sint (ds_DesiredNumberScheduled s)) (sint (ds_NumberReady s)) \<and>
   isReady_spec 3 3 \<and> \<not> isReady_spec 0 0 \<and> \<not> isReady_spec 3 2 \<and>
   isDeploymentReady \<lparr>dep_Replicas = 3, dep_ReadyReplicas = 3, dep_Containers = cs\<rparr> \<and>
   \<not> isDeploymentReady \<lparr>dep_Replicas = 0, dep_ReadyReplicas = 0, dep_Containers = cs\<rparr> \<and>
   \<not> isDeploymentReady \<lparr>dep_Replicas = 3, dep_ReadyReplicas = 2, dep_Containers = cs\<rparr> \<and>
   isDaemonSetReady
     \<lparr>ds_DesiredNumberScheduled = 3, ds_NumberReady = 3, ds_Containers = cs\<rparr> \<and>
   \<not> isDaemonSetReady
     \<lparr>ds_DesiredNumberScheduled = 0, ds_NumberReady = 0, ds_Containers = cs\<rparr> \<and>
   \<not> isDaemonSetReady
     \<lparr>ds_DesiredNumberScheduled = 3, ds_NumberReady = 2, ds_Containers = cs\<rparr>"
proof -
  have dep: "isDeploymentReady d =
               isReady_spec (sint (dep_Replicas d)) (sint (dep_ReadyReplicas d))" for d
    by (auto simp: isDeploymentReady_def isReady_spec_def Let_def word_sless_alt
             intro: signed_word_eqI)
  have ds: "isDaemonSetReady s =
              isReady_spec (sint (ds_DesiredNumberScheduled s)) (sint (ds_NumberReady s))" for s
    by (auto simp: isDaemonSetReady_def isReady_spec_def Let_def word_sless_alt
             intro: signed_word_eqI)
  have vals: "isReady_spec 3 3 \<and> \<not> isReady_spec 0 0 \<and> \<not> isReady_spec 3 2"
    by (simp add: isReady_spec_def)
  show ?thesis
    using vals by (simp add: dep ds)
qed

section \<open>Mirroring\<close>

lemma rangeTags_iff_member: "rangeTags ts tag = (tag \<in> set ts)"
  by (induction ts) auto

lemma credentials_absent:
  "USERNAME env = [] \<or> PASSWORD env = [] \<Longrightarrow>
   getRegistryCredentials env = Inl FetchCredentialsFailed"
  by (auto simp: getRegistryCredentials_def Let_def)

lemma credentials_present:
  "getRegistryCredentials env = Inr opt \<Longrightarrow> opt = (USERNAME env, PASSWORD env)"
  by (auto simp: getRegistryCredentials_def Let_def split: if_splits)

text \<open>
  A call of \<^verbatim>\<open>processImage\<close> pushes at most once, and only when the tag
  \<^verbatim>\<open>retagImage\<close> computed is absent from the listing of the destination repository;
  in a state whose listing holds that tag, a call pushes nothing.
\<close>

lemma processImage_push_absent:
  assumes "processImage rc env img r = (res, r', tr)"
    and "0 < pushes tr"
    and "retagImage (REPOSITORY env) img = Some (registry, tag, newImage)"
  shows "tag \<notin> set (remote_List rc (USERNAME env, PASSWORD env) registry r) \<and> pushes tr = 1"
  using assms
  by (auto simp: processImage_def pushes_def imageAlreadyPresentInRepo_def rangeTags_iff_member
           split: if_splits sum.splits prod.splits bool.splits dest: credentials_present)

lemma processImage_Ok:
  assumes "processImage rc env img r = (Ok newImage, r1, tr1)"
  shows "name_ParseReference rc img \<and>
         getRegistryCredentials env = Inr (USERNAME env, PASSWORD env) \<and>
         (\<exists>registry tag. retagImage (REPOSITORY env) img = Some (registry, tag, newImage)) \<and>
         name_ParseReference rc newImage"
  using assms
  by (auto simp: processImage_def
           split: if_splits sum.splits prod.splits bool.splits option.splits
           dest: credentials_present)

lemma processImage_present:
  assumes "name_ParseReference rc img"
    and "getRegistryCredentials env = Inr (USERNAME env, PASSWORD env)"
    and "retagImage (REPOSITORY env) img = Some (registry, tag, newImage)"
    and "name_ParseReference rc newImage"
    and "tag \<in> set (remote_List rc (USERNAME env, PASSWORD env) registry r)"
  shows "processImage rc env img r =
           (if remote_Image rc img r
            then (Ok newImage, r, [RemoteImage img, RemoteList registry])
            else (Err (SourceImageError img), r, [RemoteImage img]))"
  using assms
  by (simp add: processImage_def imageAlreadyPresentInRepo_def rangeTags_iff_member)

lemma processImage_twice:
  assumes first: "processImage rc env img r = (Ok newImage, r1, tr1)"
    and pushed: "pushes tr1 = 1"
    and target: "retagImage (REPOSITORY env) img = Some (registry, tag, newImage)"
    and listed: "tag \<in> set (remote_List rc (USERNAME env, PASSWORD env) registry r1)"
  shows "\<exists>res2 tr2. processImage rc env img r1 = (res2, r1, tr2) \<and> pushes tr2 = 0 \<and>
           pushes (tr1 @ tr2) = 1 \<and>
           (remote_Image rc img r1 \<longrightarrow>
              res2 = Ok newImage \<and> tr2 = [RemoteImage img, RemoteList registry])"
proof -
  from processImage_Ok [OF first] target
  have ok: "name_ParseReference rc img"
    "getRegistryCredentials env = Inr (USERNAME env, PASSWORD env)"
    "name_ParseReference rc newImage"
    by auto
  have second: "processImage rc env img r1 =
           (if remote_Image rc img r1
            then (Ok newImage, r1, [RemoteImage img, RemoteList registry])
            else (Err (SourceImageError img), r1, [RemoteImage img]))"
    by (rule processImage_present [OF ok(1) ok(2) target ok(3) listed])
  show ?thesis
    using pushed by (cases "remote_Image rc img r1") (simp_all add: second pushes_def)
qed

lemma processImage_example_first:
  "processImage example_remote example_env ''myrepo/app:v1'' [] =
     (Ok ''backup/app:v1'', [(''backup/app'', ''v1'')],
      [RemoteImage ''myrepo/app:v1'', RemoteList ''backup/app'', RemoteWrite ''backup/app:v1''])"
  by (simp add: processImage_def example_remote_def example_env_def getRegistryCredentials_def
        retagImage_closed_form imageNameWithTag_def imageAlreadyPresentInRepo_def Let_def)

text \<open>
  Whenever the listing of the destination repository does not hold the tag
  \<^verbatim>\<open>retagImage\<close> computed, a call that returns the destination reference has pushed.
  For a reference without a tag that tag is the empty string.
\<close>

lemma processImage_pushes_when_not_listed:
  assumes "processImage rc env img r = (Ok n, r', tr)"
    and "retagImage (REPOSITORY env) img = Some (registry, tag, newImage)"
    and "tag \<notin> set (remote_List rc (USERNAME env, PASSWORD env) registry r)"
  shows "pushes tr = 1"
  using assms
  by (auto simp: processImage_def pushes_def imageAlreadyPresentInRepo_def rangeTags_iff_member
           split: if_splits sum.splits prod.splits bool.splits dest: credentials_present)

text \<open>
  C1. Mirroring is not idempotent for a source reference without a tag. For
  \<^verbatim>\<open>nginx\<close> the target tag \<^verbatim>\<open>retagImage\<close> returns is the empty string, and
  \<^verbatim>\<open>imageAlreadyPresentInRepo\<close> looks for the empty string in the listing. The first
  call pushes \<^verbatim>\<open>backup/nginx\<close>, which the registry lists under \<^verbatim>\<open>latest\<close>; the
  second call, in the state the first call left, lists the repository, does not find
  the empty tag and pushes again: two pushes in two calls.
\<close>

theorem processImage_untagged_pushes_twice:
  "retagImage (REPOSITORY example_env) ''nginx'' = Some (''backup/nginx'', [], ''backup/nginx'') \<and>
   processImage example_remote example_env ''nginx'' [] =
     (Ok ''backup/nginx'', [(''backup/nginx'', ''latest'')],
      [RemoteImage ''nginx'', RemoteList ''backup/nginx'', RemoteWrite ''backup/nginx'']) \<and>
   remote_List example_remote (USERNAME example_env, PASSWORD example_env) ''backup/nginx''
       [(''backup/nginx'', ''latest'')] = [''latest''] \<and>
   processImage example_remote example_env ''nginx'' [(''backup/nginx'', ''latest'')] =
     (Ok ''backup/nginx'', [(''backup/nginx'', ''latest''), (''backup/nginx'', ''latest'')],
      [RemoteImage ''nginx'', RemoteList ''backup/nginx'', RemoteWrite ''backup/nginx'']) \<and>
   pushes ([RemoteImage ''nginx'', RemoteList ''backup/nginx'', RemoteWrite ''backup/nginx''] @
           [RemoteImage ''nginx'', RemoteList ''backup/nginx'', RemoteWrite ''backup/nginx'']) = 2"
proof -
  have target: "retagImage (REPOSITORY example_env) ''nginx'' =
                  Some (''backup/nginx'', [], ''backup/nginx'')"
    by (simp add: example_env_def retagImage_closed_form imageNameWithTag_def Let_def)
  have first: "processImage example_remote example_env ''nginx'' [] =
     (Ok ''backup/nginx'', [(''backup/nginx'', ''latest'')],
      [RemoteImage ''nginx'', RemoteList ''backup/nginx'', RemoteWrite ''backup/nginx''])"
    by (simp add: processImage_def target example_remote_def getRegistryCredentials_def
          imageAlreadyPresentInRepo_def Let_def)
       (simp add: example_env_def)
  have listing: "remote_List example_remote (USERNAME example_env, PASSWORD example_env)
       ''backup/nginx'' [(''backup/nginx'', ''latest'')] = [''latest'']"
    by (simp add: example_remote_def)
  have second: "processImage example_remote example_env ''nginx'' [(''backup/nginx'', ''latest'')] =
     (Ok ''backup/nginx'', [(''backup/nginx'', ''latest''), (''backup/nginx'', ''latest'')],
      [RemoteImage ''nginx'', RemoteList ''backup/nginx'', RemoteWrite ''backup/nginx''])"
    by (simp add: processImage_def target example_remote_def getRegistryCredentials_def
          imageAlreadyPresentInRepo_def Let_def)
       (simp add: example_env_def)
  have count: "pushes ([RemoteImage ''nginx'', RemoteList ''backup/nginx'',
                        RemoteWrite ''backup/nginx''] @
                       [RemoteImage ''nginx'', RemoteList ''backup/nginx'',
                        RemoteWrite ''backup/nginx'']) = 2"
    by (simp add: pushes_def)
  from target first listing second count show ?thesis by simp
qed

text \<open>
  C8. When the user name or the password of the destination registry is empty,
  \<^verbatim>\<open>getRegistryCredentials\<close> returns its error and \<^verbatim>\<open>processImage\<close> returns an error
  without any call to a registry and with the state of the registries unchanged; when
  the source reference parses, that error wraps the credentials error.
\<close>

theorem processImage_without_credentials:
  assumes "USERNAME env = [] \<or> PASSWORD env = []"
  shows "getRegistryCredentials env = Inl FetchCredentialsFailed \<and>
         (\<exists>e. processImage rc env imgName r = (Err e, r, [])) \<and>
         (name_ParseReference rc imgName \<longrightarrow>
            processImage rc env imgName r =
              (Err (CredentialsError FetchCredentialsFailed), r, []))"
  using credentials_absent [OF assms] by (simp add: processImage_def)

theorem processImage_without_credentials_witness:
  "getRegistryCredentials (example_env\<lparr>PASSWORD := []\<rparr>) = Inl FetchCredentialsFailed \<and>
   processImage example_remote (example_env\<lparr>PASSWORD := []\<rparr>) ''nginx:1.0'' [] =
     (Err (CredentialsError FetchCredentialsFailed), [], [])"
  using processImage_without_credentials
    [of "example_env\<lparr>PASSWORD := []\<rparr>" example_remote "''nginx:1.0''" "[]"]
  by (simp add: example_remote_def)

section \<open>The reconcile pass and the worker\<close>

text \<open>
  One pass on a ready deployment with the single container image \<^verbatim>\<open>myrepo/app:v1\<close>
  and the prefix \<^verbatim>\<open>backup\<close>: the image is mirrored to \<^verbatim>\<open>backup/app:v1\<close>, the image
  of container 0 is rewritten and one update is issued.
\<close>

lemma checkAndUpdateImage_example_mirrors:
  "checkAndUpdateImage example_remote
       (example_cluster\<lparr>depLister_Get := \<lambda>namespace name.
          Inr \<lparr>dep_Replicas = 1, dep_ReadyReplicas = 1,
               dep_Containers = [\<lparr>Name = ''app'', Image = ''myrepo/app:v1''\<rparr>]\<rparr>\<rparr>)
       example_env ''deployment/default/web'' ''deployment'' ''default'' ''web'' [] =
     (Ok (), [(''backup/app'', ''v1'')],
      [DeploymentsGet ''default'' ''web'', RemoteImage ''myrepo/app:v1'',
       RemoteList ''backup/app'', RemoteWrite ''backup/app:v1'',
       DeploymentsUpdate ''default''
         \<lparr>dep_Replicas = 1, dep_ReadyReplicas = 1,
          dep_Containers = [\<lparr>Name = ''app'', Image = ''backup/app:v1''\<rparr>]\<rparr>])"
proof -
  have np: "imageNotPresent (REPOSITORY example_env) ''myrepo/app:v1''"
    by (simp add: imageNotPresent_def HasPrefix_def example_env_def)
  show ?thesis
    by (simp add: checkAndUpdateImage_def example_cluster_def isDeploymentReady_def
          word_sless_alt np processImage_example_first setImage_def)
qed

text \<open>
  C2. The loop over the containers never reaches a second container: whatever follows
  the first container, the pass does what it does on the first container alone. On the
  ready deployment \<^verbatim>\<open>default/web\<close>, whose first image \<^verbatim>\<open>backup/app:v1\<close> has the
  prefix \<^verbatim>\<open>backup\<close> and whose second image \<^verbatim>\<open>nginx:1.0\<close> lacks it, the pass returns
  nil after the lookup: no call to a registry, no update, the second container is not
  mirrored, and the worker forgets the key.
\<close>

theorem checkAndUpdateImage_stops_at_first_container:
  "rangeContainers rc cl env key resourceType namespace dep daemonset i (cont # rest) r =
     rangeContainers rc cl env key resourceType namespace dep daemonset i [cont] r \<and>
   checkAndUpdateImage rc example_cluster example_env
       ''deployment/default/web'' ''deployment'' ''default'' ''web'' r =
     (Ok (), r, [DeploymentsGet ''default'' ''web'']) \<and>
   processNext rc example_cluster example_env (StringItem ''deployment/default/web'') r =
     (Ok (), r, [DeploymentsGet ''default'' ''web'',
                 Forget (StringItem ''deployment/default/web''),
                 Done (StringItem ''deployment/default/web'')])"
proof -
  have pass: "checkAndUpdateImage rc example_cluster example_env
       ''deployment/default/web'' ''deployment'' ''default'' ''web'' r =
     (Ok (), r, [DeploymentsGet ''default'' ''web''])"
    by (simp add: checkAndUpdateImage_def example_cluster_def example_env_def
          example_deployment_def isDeploymentReady_def imageNotPresent_def HasPrefix_def
          word_sless_alt)
  show ?thesis
    by (simp add: processNext_def Let_def pass)
qed

text \<open>
  C3. A lookup that reports NotFound is not a terminal skip in the code: \<open>errs\<close> is
  never assigned, so the branch that would return nil is not taken; the readiness check
  is attempted on the nil pointer and panics. For the key
  \<^verbatim>\<open>deployment/default/gone\<close> in a cluster whose deployment lister finds nothing,
  \<^verbatim>\<open>checkAndUpdateImage\<close> panics after the lookup and the worker calls \<^verbatim>\<open>Done\<close> only,
  not \<^verbatim>\<open>Forget\<close>.
\<close>

theorem checkAndUpdateImage_lookup_miss_panics:
  "checkAndUpdateImage rc (cl\<lparr>depLister_Get := \<lambda>namespace name. Inl NotFound\<rparr>) env
       ''deployment/default/gone'' ''deployment'' ''default'' ''gone'' r =
     (Panic, r, [DeploymentsGet ''default'' ''gone'']) \<and>
   processNext rc (cl\<lparr>depLister_Get := \<lambda>namespace name. Inl NotFound\<rparr>) env
       (StringItem ''deployment/default/gone'') r =
     (Panic, r, [DeploymentsGet ''default'' ''gone'',
                 Done (StringItem ''deployment/default/gone'')])"
proof -
  have pass: "checkAndUpdateImage rc (cl\<lparr>depLister_Get := \<lambda>namespace name. Inl NotFound\<rparr>) env
       ''deployment/default/gone'' ''deployment'' ''default'' ''gone'' r =
     (Panic, r, [DeploymentsGet ''default'' ''gone''])"
    by (simp add: checkAndUpdateImage_def)
  show ?thesis
    by (simp add: processNext_def Let_def pass)
qed

text \<open>
  C4. For a key of three fields whose namespace field is \<^verbatim>\<open>kube-system\<close>, the worker
  makes no call to the cache, a registry or the API server, whatever these
  collaborators are: it forgets the key, marks it done and returns nil, the state of
  the registries unchanged.
\<close>

theorem processNext_kube_system:
  assumes "length (Split key CHR ''/'') = 3"
    and "Split key CHR ''/'' ! 1 = ''kube-system''"
  shows "processNext rc cl env (StringItem key) r =
           (Ok (), r, [Forget (StringItem key), Done (StringItem key)])"
  using assms by (simp add: processNext_def Let_def)

theorem processNext_kube_system_witness:
  "processNext example_remote example_cluster example_env
       (StringItem ''deployment/kube-system/coredns'') [] =
     (Ok (), [], [Forget (StringItem ''deployment/kube-system/coredns''),
                  Done (StringItem ''deployment/kube-system/coredns'')])"
  using processNext_kube_system
    [of "''deployment/kube-system/coredns''" example_remote example_cluster example_env "[]"]
  by simp

text \<open>
  C9. A lookup miss ends with neither \<^verbatim>\<open>Forget\<close> nor \<^verbatim>\<open>AddRateLimited\<close>. For the key
  \<^verbatim>\<open>daemonset/default/gone\<close> in a cluster whose daemon set lister reports NotFound,
  the readiness check on the nil pointer panics and the worker's calls are the lookup
  and the deferred \<^verbatim>\<open>Done\<close>: the item is neither forgotten nor added again.
\<close>

theorem processNext_lookup_miss_neither_forgets_nor_requeues:
  "processNext rc (cl\<lparr>daemonLister_Get := \<lambda>namespace name. Inl NotFound\<rparr>) env
       (StringItem ''daemonset/default/gone'') r =
     (Panic, r, [DaemonSetsGet ''default'' ''gone'',
                 Done (StringItem ''daemonset/default/gone'')]) \<and>
   Forget (StringItem ''daemonset/default/gone'') \<notin>
     set (snd (snd (processNext rc (cl\<lparr>daemonLister_Get := \<lambda>namespace name. Inl NotFound\<rparr>) env
                      (StringItem ''daemonset/default/gone'') r))) \<and>
   AddRateLimited ''daemonset/default/gone'' \<notin>
     set (snd (snd (processNext rc (cl\<lparr>daemonLister_Get := \<lambda>namespace name. Inl NotFound\<rparr>) env
                      (StringItem ''daemonset/default/gone'') r)))"
proof -
  have pass: "checkAndUpdateImage rc (cl\<lparr>daemonLister_Get := \<lambda>namespace name. Inl NotFound\<rparr>)
       env ''daemonset/default/gone'' ''daemonset'' ''default'' ''gone'' r =
     (Panic, r, [DaemonSetsGet ''default'' ''gone''])"
    by (simp add: checkAndUpdateImage_def)
  have worker: "processNext rc (cl\<lparr>daemonLister_Get := \<lambda>namespace name. Inl NotFound\<rparr>) env
       (StringItem ''daemonset/default/gone'') r =
     (Panic, r, [DaemonSetsGet ''default'' ''gone'',
                 Done (StringItem ''daemonset/default/gone'')])"
    by (simp add: processNext_def Let_def pass)
  show ?thesis
    by (simp add: worker)
qed

end
